theory Spec2Isabelle
  imports Main "HOL-Library.Sublist"
begin

section \<open>Python values used by services.py\<close>

text \<open>
  Python strings are modelled as \<open>string\<close> (lists of characters), Python's unbounded
  integers as \<open>int\<close>, and a raised exception as a value of \<open>py_exn\<close>; a call that may
  raise returns \<open>py_exn + 'a\<close>. Every public function of services.py wraps its body in
  \<open>try ... except Exception as e: return {"success": False, "error": str(e)}\<close>, so the
  only thing that survives of an exception is \<open>str(e)\<close>.
\<close>

datatype py_exn = KeyError string | Raised string

fun str_exn :: "py_exn \<Rightarrow> string" where
  "str_exn (KeyError k) = [CHR 0x27] @ k @ [CHR 0x27]"
| "str_exn (Raised msg) = msg"

subsection \<open>String operations\<close>

definition nl :: string where
  "nl = [CHR 0x0A]"

text \<open>\<open>s.endswith(suf)\<close>\<close>

definition endswith :: "string \<Rightarrow> string \<Rightarrow> bool" where
  "endswith s suf \<longleftrightarrow> length suf \<le> length s \<and> drop (length s - length suf) s = suf"

text \<open>\<open>sep.join(parts)\<close>\<close>

fun join :: "string \<Rightarrow> string list \<Rightarrow> string" where
  "join sep [] = []"
| "join sep [p] = p"
| "join sep (p # q # ps) = p @ sep @ join sep (q # ps)"

text \<open>\<open>os.path.join(a, b)\<close> on POSIX, for the two-argument calls of the source.\<close>

definition os_path_join :: "string \<Rightarrow> string \<Rightarrow> string" where
  "os_path_join a b =
     (if b \<noteq> [] \<and> hd b = CHR ''/'' then b
      else if a = [] \<or> last a = CHR ''/'' then a @ b
      else a @ ''/'' @ b)"

text \<open>\<open>str(n)\<close> for an integer, as the f-string \<open>f"repo_{repo_id}"\<close> renders it.\<close>

fun str_nat :: "nat \<Rightarrow> string" where
  "str_nat n =
     (if n < 10 then [char_of (48 + n)]
      else str_nat (n div 10) @ [char_of (48 + n mod 10)])"

declare str_nat.simps [simp del]

definition str_int :: "int \<Rightarrow> string" where
  "str_int i = (if i < 0 then ''-'' @ str_nat (nat (- i)) else str_nat (nat i))"

text \<open>
  \<open>c.isspace()\<close> and \<open>s.lower()\<close> on the ASCII range; \<open>s.strip()\<close>, \<open>s.split(",")\<close>,
  \<open>s.split()\<close> and the substring test \<open>kw in text\<close>.
\<close>

definition isspace :: "char \<Rightarrow> bool" where
  "isspace c \<longleftrightarrow> c \<in> {CHR 0x20, CHR 0x09, CHR 0x0A, CHR 0x0B, CHR 0x0C, CHR 0x0D,
                      CHR 0x1C, CHR 0x1D, CHR 0x1E, CHR 0x1F}"

definition lower_char :: "char \<Rightarrow> char" where
  "lower_char c =
     (if 65 \<le> (of_char c :: nat) \<and> (of_char c :: nat) \<le> 90
      then char_of ((of_char c :: nat) + 32) else c)"

definition lower :: "string \<Rightarrow> string" where
  "lower s = map lower_char s"

definition strip :: "string \<Rightarrow> string" where
  "strip s = rev (dropWhile isspace (rev (dropWhile isspace s)))"

fun split_on :: "char \<Rightarrow> string \<Rightarrow> string list" where
  "split_on c [] = [[]]"
| "split_on c (x # xs) =
     (if x = c then [] # split_on c xs
      else (case split_on c xs of
              [] \<Rightarrow> [[x]]
            | w # ws \<Rightarrow> (x # w) # ws))"

fun split_words :: "string \<Rightarrow> string \<Rightarrow> string list" where
  "split_words cur [] = (if cur = [] then [] else [cur])"
| "split_words cur (c # cs) =
     (if isspace c
      then (if cur = [] then split_words [] cs else cur # split_words [] cs)
      else split_words (cur @ [c]) cs)"

definition split :: "string \<Rightarrow> string list" where
  "split s = split_words [] s"

fun is_substring :: "string \<Rightarrow> string \<Rightarrow> bool" where
  "is_substring kw [] \<longleftrightarrow> kw = []"
| "is_substring kw (c # cs) \<longleftrightarrow> prefix kw (c # cs) \<or> is_substring kw cs"


section \<open>RepositoryService\<close>

subsection \<open>Data\<close>

text \<open>
  The members of langchain's \<open>Language\<close> enumeration that \<open>language_map\<close> and the
  default of \<open>load_and_index_repository\<close> mention.
\<close>

datatype language = PYTHON | JS | TS | JAVA | CPP | GO | RUBY

text \<open>A langchain \<open>Document\<close>: \<open>page_content\<close> and the \<open>metadata\<close> dictionary.\<close>

record document =
  page_content :: string
  metadata :: "string \<rightharpoonup> string"

text \<open>A file of the cloned repository: its path inside the repository and its text.\<close>

record repo_file =
  file_path :: string
  file_text :: string

text \<open>
  What the function sees of the machine: the paths that exist on disk, and for each
  persist directory the entries of the Chroma collection stored in it (no entries where
  nothing has been stored).
\<close>

record world =
  fs :: "string set"
  collections :: "string \<Rightarrow> document list"

text \<open>
  The library calls of \<open>load_and_index_repository\<close>, each of which may raise, and the
  Django setting \<open>VECTOR_STORE_PATH\<close>:
  \<^item> \<open>mkdtemp\<close>: \<open>tempfile.mkdtemp()\<close>, given the paths that exist, the new directory;
  \<^item> \<open>git_clone\<close>: the clone that \<open>GitLoader.load()\<close> makes of \<open>clone_url\<close> at \<open>branch\<close>,
    giving the files of the checkout;
  \<^item> \<open>split_documents\<close>: \<open>RecursiveCharacterTextSplitter.from_language(language,
    chunk_size, chunk_overlap).split_documents(documents)\<close>;
  \<^item> \<open>load_embeddings\<close>: the constructor \<open>HuggingFaceEmbeddings(...)\<close>;
  \<^item> \<open>makedirs\<close>: \<open>os.makedirs(path, exist_ok=True)\<close>;
  \<^item> \<open>from_documents\<close>: \<open>Chroma.from_documents(documents, embedding,
    persist_directory)\<close>, given the entries already stored in the persist directory and
    the documents passed, the entries stored afterwards.
\<close>

record repo_env =
  mkdtemp :: "string set \<Rightarrow> py_exn + string"
  git_clone :: "string \<Rightarrow> string \<Rightarrow> py_exn + repo_file list"
  split_documents :: "language \<Rightarrow> nat \<Rightarrow> nat \<Rightarrow> document list \<Rightarrow> py_exn + document list"
  load_embeddings :: "py_exn + unit"
  makedirs :: "string \<Rightarrow> py_exn + unit"
  from_documents :: "document list \<Rightarrow> document list \<Rightarrow> py_exn + document list"
  VECTOR_STORE_PATH :: string

text \<open>The dictionary that \<open>load_and_index_repository\<close> returns.\<close>

datatype index_result =
  IndexSuccess (file_count: nat) (chunk_count: nat) (index_path: string)
| IndexFailure (index_error: string)

subsection \<open>The file filter and the loader\<close>

text \<open>\<open>any(file_path.endswith(ext) for ext in file_extensions)\<close>\<close>

definition file_filter :: "string list \<Rightarrow> string \<Rightarrow> bool" where
  "file_filter file_extensions path \<longleftrightarrow> (\<exists>ext \<in> set file_extensions. endswith path ext)"

text \<open>
  \<open>GitLoader.load()\<close> after a successful clone into \<open>repo_path\<close>: one Document for each
  file of the checkout whose path under \<open>repo_path\<close> passes \<open>file_filter\<close>, with the
  path inside the repository as its \<open>source\<close>.
\<close>

definition to_document :: "repo_file \<Rightarrow> document" where
  "to_document f =
     \<lparr>page_content = file_text f, metadata = [''source'' \<mapsto> file_path f]\<rparr>"

definition loader_load :: "string \<Rightarrow> string list \<Rightarrow> repo_file list \<Rightarrow> document list" where
  "loader_load repo_path file_extensions files =
     map to_document
       (filter (\<lambda>f. file_filter file_extensions (os_path_join repo_path (file_path f))) files)"

subsection \<open>Choice of the splitter language\<close>

definition language_map :: "string \<rightharpoonup> language" where
  "language_map = map_of
     [(''.py'', PYTHON), (''.js'', JS), (''.jsx'', JS),
      (''.ts'', TS), (''.tsx'', TS), (''.java'', JAVA),
      (''.cpp'', CPP), (''.c'', CPP), (''.go'', GO), (''.rb'', RUBY)]"

text \<open>
  \<open>language = Language.PYTHON; for ext in file_extensions: if ext in language_map:
  language = language_map[ext]; break\<close>
\<close>

fun select_language :: "string list \<Rightarrow> language" where
  "select_language [] = PYTHON"
| "select_language (ext # exts) =
     (case language_map ext of
        Some l \<Rightarrow> l
      | None \<Rightarrow> select_language exts)"

subsection \<open>The build pipeline\<close>

text \<open>\<open>shutil.rmtree(p, ignore_errors=True)\<close>: \<open>p\<close> and everything under it is gone.\<close>

definition under :: "string \<Rightarrow> string \<Rightarrow> bool" where
  "under p q \<longleftrightarrow> q = p \<or> prefix (p @ ''/'') q"

definition rmtree :: "string \<Rightarrow> string set \<Rightarrow> string set" where
  "rmtree p paths = {q \<in> paths. \<not> under p q}"

text \<open>
  The \<open>finally\<close> block: \<open>if temp_dir and os.path.exists(temp_dir): shutil.rmtree(temp_dir,
  ignore_errors=True)\<close>. \<open>temp_dir\<close> is \<open>None\<close> until \<open>mkdtemp\<close> has returned.
\<close>

fun cleanup :: "string option \<Rightarrow> world \<Rightarrow> world" where
  "cleanup None w = w"
| "cleanup (Some temp_dir) w =
     (if temp_dir \<noteq> [] \<and> temp_dir \<in> fs w
      then w\<lparr>fs := rmtree temp_dir (fs w)\<rparr> else w)"

text \<open>
  The body of the \<open>try\<close> after \<open>mkdtemp\<close>, with the \<open>except\<close> clause applied to
  each call that raises: \<open>index_body\<close> is lines 25 to 62 (the clone writes the checkout
  under \<open>temp_dir\<close>), \<open>persist\<close> is lines 64 to 78.
\<close>

definition persist ::
  "repo_env \<Rightarrow> world \<Rightarrow> document list \<Rightarrow> document list \<Rightarrow> int \<Rightarrow> index_result \<times> world"
where
  "persist env w documents splits repo_id =
     (let path = os_path_join (VECTOR_STORE_PATH env) (''repo_'' @ str_int repo_id)
      in (case makedirs env path of
            Inl e \<Rightarrow> (IndexFailure (str_exn e), w)
          | Inr _ \<Rightarrow>
              (let w2 = w\<lparr>fs := insert path (fs w)\<rparr>
               in (case from_documents env (collections w2 path) splits of
                     Inl e \<Rightarrow> (IndexFailure (str_exn e), w2)
                   | Inr stored \<Rightarrow>
                       (IndexSuccess (length documents) (length splits) path,
                        w2\<lparr>collections := (collections w2)(path := stored)\<rparr>)))))"

definition index_body ::
  "repo_env \<Rightarrow> world \<Rightarrow> string \<Rightarrow> string \<Rightarrow> string \<Rightarrow> string list \<Rightarrow> int \<Rightarrow> index_result \<times> world"
where
  "index_body env w temp_dir repo_url branch file_extensions repo_id =
     (case git_clone env repo_url branch of
        Inl e \<Rightarrow> (IndexFailure (str_exn e), w)
      | Inr files \<Rightarrow>
          (let w1 = w\<lparr>fs := fs w \<union> (\<lambda>f. os_path_join temp_dir (file_path f)) ` set files\<rparr>;
               documents = loader_load temp_dir file_extensions files
           in if documents = []
              then (IndexFailure ''No files found matching the selected extensions'', w1)
              else
                (let language = select_language file_extensions
                 in (case split_documents env language 1000 200 documents of
                       Inl e \<Rightarrow> (IndexFailure (str_exn e), w1)
                     | Inr splits \<Rightarrow>
                         (case load_embeddings env of
                            Inl e \<Rightarrow> (IndexFailure (str_exn e), w1)
                          | Inr _ \<Rightarrow> persist env w1 documents splits repo_id)))))"

definition load_and_index_repository ::
  "repo_env \<Rightarrow> world \<Rightarrow> string \<Rightarrow> string \<Rightarrow> string list \<Rightarrow> int \<Rightarrow> index_result \<times> world"
where
  "load_and_index_repository env w repo_url branch file_extensions repo_id =
     (case mkdtemp env (fs w) of
        Inl e \<Rightarrow> (IndexFailure (str_exn e), cleanup None w)
      | Inr temp_dir \<Rightarrow>
          (case index_body env (w\<lparr>fs := insert temp_dir (fs w)\<rparr>) temp_dir
                  repo_url branch file_extensions repo_id of
             (r, w') \<Rightarrow> (r, cleanup (Some temp_dir) w')))"

text \<open>
  \<open>get_vector_store(vector_store_path)\<close> opens the collection persisted in the directory;
  the entries a query can return are the entries stored there.
\<close>

definition get_vector_store :: "world \<Rightarrow> string \<Rightarrow> document list" where
  "get_vector_store w path = collections w path"

text \<open>
  The behaviour of \<open>Chroma.from_documents\<close> on a persist directory: it opens the collection
  stored there (creating it when absent) and adds the documents to it; nothing stored
  before is deleted. An empty list of documents is refused with a \<open>ValueError\<close>, here
  \<open>empty_error\<close>, and nothing is stored.
\<close>

definition chroma_from_documents ::
  "py_exn \<Rightarrow> document list \<Rightarrow> document list \<Rightarrow> py_exn + document list"
where
  "chroma_from_documents empty_error stored docs =
     (if docs = [] then Inl empty_error else Inr (stored @ docs))"


section \<open>ChatService\<close>

text \<open>
  A turn of \<open>chat_history\<close> is a dictionary; \<open>msg['role']\<close> raises \<open>KeyError\<close> when the
  key is missing.
\<close>

type_synonym chat_turn = "string \<rightharpoonup> string"

datatype message = HumanMessage string | AIMessage string

definition getitem :: "(string \<rightharpoonup> 'v) \<Rightarrow> string \<Rightarrow> py_exn + 'v" where
  "getitem d k = (case d k of None \<Rightarrow> Inl (KeyError k) | Some v \<Rightarrow> Inr v)"

text \<open>
  The loop of lines 128 to 133 over the turns not yet visited, with the list
  \<open>formatted_history\<close> built so far.
\<close>

fun format_history :: "chat_turn list \<Rightarrow> message list \<Rightarrow> py_exn + message list" where
  "format_history [] formatted_history = Inr formatted_history"
| "format_history (msg # rest) formatted_history =
     (case getitem msg ''role'' of
        Inl e \<Rightarrow> Inl e
      | Inr role \<Rightarrow>
          (if role = ''user''
           then (case getitem msg ''content'' of
                   Inl e \<Rightarrow> Inl e
                 | Inr c \<Rightarrow> format_history rest (formatted_history @ [HumanMessage c]))
           else (case getitem msg ''content'' of
                   Inl e \<Rightarrow> Inl e
                 | Inr c \<Rightarrow> format_history rest (formatted_history @ [AIMessage c]))))"

text \<open>
  The library calls of \<open>get_response\<close>:
  \<^item> \<open>make_llm\<close>: the constructor \<open>ChatGoogleGenerativeAI(...)\<close>;
  \<^item> \<open>open_vector_store\<close>: \<open>RepositoryService.get_vector_store(vector_store_path)\<close>;
  \<^item> \<open>retrieve\<close>: the similarity search of the store at a path for the \<open>k\<close> nearest
    entries of a query string;
  \<^item> \<open>not_a_string\<close>: the exception that \<open>HuggingFaceEmbeddings.embed_query\<close>, the
    embedding function that \<open>get_vector_store\<close> fixes, raises when the query it is given
    is a dictionary and not a string;
  \<^item> \<open>llm_answer\<close>: \<open>prompt | llm | StrOutputParser()\<close> on the context block, the
    formatted history and the question.
\<close>

record chat_env =
  make_llm :: "py_exn + unit"
  open_vector_store :: "string \<Rightarrow> py_exn + unit"
  retrieve :: "string \<Rightarrow> nat \<Rightarrow> string \<Rightarrow> py_exn + document list"
  not_a_string :: py_exn
  llm_answer :: "string \<Rightarrow> message list \<Rightarrow> string \<Rightarrow> py_exn + string"

text \<open>
  What a retriever is invoked with. On line 150 it is the question, a string. On line 137
  the retriever is the first step of the \<open>context\<close> entry of the dictionary at the head of
  the chain, so it receives the input of the chain, the dictionary
  \<open>{"input": question, "chat_history": formatted_history}\<close> of lines 143 to 146.
\<close>

datatype retriever_input = QueryString string | QueryDict string "message list"

definition retriever_invoke ::
  "chat_env \<Rightarrow> string \<Rightarrow> nat \<Rightarrow> retriever_input \<Rightarrow> py_exn + document list"
where
  "retriever_invoke env path k q =
     (case q of
        QueryString text \<Rightarrow> retrieve env path k text
      | QueryDict input history \<Rightarrow> Inl (not_a_string env))"

text \<open>\<open>format_docs\<close> of lines 125 to 126: the texts joined with a blank line between.\<close>

definition format_docs :: "document list \<Rightarrow> string" where
  "format_docs docs = join (nl @ nl) (map page_content docs)"

text \<open>\<open>retrieval_chain.invoke\<close> of lines 136 to 146.\<close>

definition retrieval_chain_invoke ::
  "chat_env \<Rightarrow> string \<Rightarrow> string \<Rightarrow> message list \<Rightarrow> py_exn + string"
where
  "retrieval_chain_invoke env path question formatted_history =
     (case retriever_invoke env path 3 (QueryDict question formatted_history) of
        Inl e \<Rightarrow> Inl e
      | Inr docs \<Rightarrow> llm_answer env (format_docs docs) formatted_history question)"

record context_doc =
  content :: string
  source :: string

datatype chat_result =
  ChatSuccess (answer: string) (context_docs: "context_doc list")
| ChatFailure (chat_error: string)

text \<open>
  \<open>{"content": doc.page_content[:500], "source": doc.metadata.get('source', 'Unknown')}\<close>
\<close>

definition context_entry :: "document \<Rightarrow> context_doc" where
  "context_entry doc =
     \<lparr>content = take 500 (page_content doc),
      source = (case metadata doc ''source'' of Some s \<Rightarrow> s | None \<Rightarrow> ''Unknown'')\<rparr>"

definition get_response :: "chat_env \<Rightarrow> string \<Rightarrow> string \<Rightarrow> chat_turn list \<Rightarrow> chat_result" where
  "get_response env question vector_store_path chat_history =
     (case make_llm env of
        Inl e \<Rightarrow> ChatFailure (str_exn e)
      | Inr _ \<Rightarrow>
     (case open_vector_store env vector_store_path of
        Inl e \<Rightarrow> ChatFailure (str_exn e)
      | Inr _ \<Rightarrow>
     (case format_history chat_history [] of
        Inl e \<Rightarrow> ChatFailure (str_exn e)
      | Inr formatted_history \<Rightarrow>
     (case retrieval_chain_invoke env vector_store_path question formatted_history of
        Inl e \<Rightarrow> ChatFailure (str_exn e)
      | Inr response \<Rightarrow>
     (case retriever_invoke env vector_store_path 3 (QueryString question) of
        Inl e \<Rightarrow> ChatFailure (str_exn e)
      | Inr retrieved_docs \<Rightarrow>
          ChatSuccess response (map context_entry (take 3 retrieved_docs)))))))"


section \<open>GitHubService\<close>

text \<open>
  What PyGithub returns: a comment, and an issue with the listing that
  \<open>issue.get_comments()\<close> gives for it (in the order the tracker lists the comments).
  Times are seconds since the epoch.
\<close>

record issue_comment =
  comment_user :: string
  comment_body :: string
  comment_created_at :: nat

record gh_issue =
  gh_title :: string
  gh_number :: int
  gh_state :: string
  gh_body :: "string option"
  gh_labels :: "string list"
  gh_comments :: nat
  gh_html_url :: string
  gh_user :: string
  gh_created_at :: nat
  gh_updated_at :: nat
  gh_get_comments :: "py_exn + issue_comment list"

text \<open>
  The remote calls of \<open>GitHubService\<close>: \<open>g.get_repo(repo_name).get_issue(issue_number)\<close>;
  the constructor of the chat model and \<open>llm.invoke([HumanMessage(prompt)]).content\<close>;
  \<open>g.get_repo(repo_name).get_issues(state, labels)\<close>, a lazy listing whose next element is
  an issue or an exception raised while fetching it; and \<open>str\<close> of a datetime.
\<close>

record github_env =
  get_issue :: "string \<Rightarrow> int \<Rightarrow> py_exn + gh_issue"
  init_llm :: "py_exn + unit"
  llm_invoke :: "string \<Rightarrow> py_exn + string"
  get_issues :: "string \<Rightarrow> string \<Rightarrow> string list \<Rightarrow> py_exn + (py_exn + gh_issue) list"
  str_datetime :: "nat \<Rightarrow> string"

subsection \<open>Analysis of one issue\<close>

record comment_data =
  user :: string
  body :: string
  created_at :: string

text \<open>The dictionary \<open>issue_data\<close>; \<open>ai_analysis\<close> is \<open>None\<close> while the key is absent.\<close>

record issue_data =
  d_title :: string
  d_number :: int
  d_state :: string
  d_body :: string
  d_labels :: "string list"
  d_comments_count :: nat
  d_url :: string
  d_user :: string
  d_created_at :: nat
  d_updated_at :: nat
  d_comments :: "comment_data list"
  d_ai_analysis :: "string option"

datatype analyze_result =
  AnalyzeSuccess (data: issue_data)
| AnalyzeFailure (analyze_error: string)

text \<open>\<open>issue.body or "No description provided"\<close>\<close>

definition body_or_default :: "string option \<Rightarrow> string" where
  "body_or_default b =
     (case b of
        None \<Rightarrow> ''No description provided''
      | Some t \<Rightarrow> (if t = [] then ''No description provided'' else t))"

definition comment_entry :: "github_env \<Rightarrow> issue_comment \<Rightarrow> comment_data" where
  "comment_entry env c =
     \<lparr>user = comment_user c, body = comment_body c,
      created_at = str_datetime env (comment_created_at c)\<rparr>"

text \<open>
  Iterating the slice \<open>listing[:n]\<close> of a PyGithub paginated listing: the first \<open>n\<close>
  elements; on a listing without elements the slice raises
  \<open>IndexError('list index out of range')\<close> when \<open>n\<close> is positive.
\<close>

definition paginated_slice :: "nat \<Rightarrow> 'a list \<Rightarrow> py_exn + 'a list" where
  "paginated_slice n listing =
     (if n = 0 then Inr []
      else if listing = [] then Inl (Raised ''list index out of range'')
      else Inr (take n listing))"

text \<open>The f-string \<open>analysis_prompt\<close> of lines 204 to 213.\<close>

definition analysis_prompt :: "issue_data \<Rightarrow> string" where
  "analysis_prompt d =
     ''Analyze this GitHub issue and provide:'' @ nl @
     ''1. A brief summary of the problem'' @ nl @
     ''2. Possible root causes'' @ nl @
     ''3. Suggested solutions or next steps'' @ nl @
     ''4. Priority level (High/Medium/Low)'' @ nl @
     nl @
     ''Issue Title: '' @ d_title d @ nl @
     ''Issue Body: '' @ take 1000 (d_body d) @ nl @
     ''Labels: '' @ (if d_labels d \<noteq> [] then join '', '' (d_labels d) else ''None'') @ nl @
     ''State: '' @ d_state d"

definition fetch_issue_data :: "gh_issue \<Rightarrow> issue_data" where
  "fetch_issue_data issue =
     \<lparr>d_title = gh_title issue,
      d_number = gh_number issue,
      d_state = gh_state issue,
      d_body = body_or_default (gh_body issue),
      d_labels = gh_labels issue,
      d_comments_count = gh_comments issue,
      d_url = gh_html_url issue,
      d_user = gh_user issue,
      d_created_at = gh_created_at issue,
      d_updated_at = gh_updated_at issue,
      d_comments = [],
      d_ai_analysis = None\<rparr>"

definition analyze_issue :: "github_env \<Rightarrow> string \<Rightarrow> int \<Rightarrow> analyze_result" where
  "analyze_issue env repo_name issue_number =
     (case get_issue env repo_name issue_number of
        Inl e \<Rightarrow> AnalyzeFailure (str_exn e)
      | Inr issue \<Rightarrow>
     (case gh_get_comments issue of
        Inl e \<Rightarrow> AnalyzeFailure (str_exn e)
      | Inr listing \<Rightarrow>
     (case paginated_slice 5 listing of
        Inl e \<Rightarrow> AnalyzeFailure (str_exn e)
      | Inr first \<Rightarrow>
     (let comments = map (comment_entry env) first;
          issue_data = (fetch_issue_data issue)\<lparr>d_comments := comments\<rparr>
      in
     (case init_llm env of
        Inl e \<Rightarrow> AnalyzeFailure (str_exn e)
      | Inr _ \<Rightarrow>
     (case llm_invoke env (analysis_prompt issue_data) of
        Inl e \<Rightarrow> AnalyzeFailure (str_exn e)
      | Inr analysis \<Rightarrow>
          AnalyzeSuccess (issue_data\<lparr>d_ai_analysis := Some analysis\<rparr>)))))))"

subsection \<open>Search for issues\<close>

record issue_row =
  row_number :: int
  row_title :: string
  row_state :: string
  row_labels :: "string list"
  row_created_at :: string
  row_comments :: nat
  row_url :: string

datatype search_result =
  SearchSuccess (issues: "issue_row list")
| SearchFailure (search_error: string)

text \<open>\<open>[l.strip() for l in labels.split(",")] if labels else []\<close>\<close>

definition label_list :: "string \<Rightarrow> string list" where
  "label_list labels = (if labels \<noteq> [] then map strip (split_on CHR '','' labels) else [])"

text \<open>
  Lines 236 to 240: \<open>True\<close> when the issue is kept, \<open>False\<close> when the loop goes on to the
  next issue with \<open>continue\<close>.
\<close>

definition keyword_match :: "string \<Rightarrow> gh_issue \<Rightarrow> bool" where
  "keyword_match keywords issue =
     (if keywords \<noteq> []
      then (let keyword_list = split (lower keywords);
                issue_text = lower (gh_title issue @ '' '' @
                               (case gh_body issue of None \<Rightarrow> [] | Some b \<Rightarrow> b))
            in (\<exists>kw \<in> set keyword_list. is_substring kw issue_text))
      else True)"

definition row_of :: "github_env \<Rightarrow> gh_issue \<Rightarrow> issue_row" where
  "row_of env issue =
     \<lparr>row_number = gh_number issue,
      row_title = gh_title issue,
      row_state = gh_state issue,
      row_labels = gh_labels issue,
      row_created_at = str_datetime env (gh_created_at issue),
      row_comments = gh_comments issue,
      row_url = gh_html_url issue\<rparr>"

text \<open>
  The \<open>for\<close> loop of lines 232 to 250 over the rest of the lazy listing. Each round first
  takes the next element from the listing (which may raise), then runs the body.
  \<open>pulled\<close> counts the elements taken from the listing so far.
\<close>

fun search_loop ::
  "github_env \<Rightarrow> string \<Rightarrow> int \<Rightarrow> (py_exn + gh_issue) list \<Rightarrow> issue_row list \<Rightarrow> nat
     \<Rightarrow> py_exn + issue_row list \<times> nat"
where
  "search_loop env keywords max_results [] issues_list pulled = Inr (issues_list, pulled)"
| "search_loop env keywords max_results (Inl e # rest) issues_list pulled = Inl e"
| "search_loop env keywords max_results (Inr issue # rest) issues_list pulled =
     (if int (length issues_list) \<ge> max_results then Inr (issues_list, Suc pulled)
      else if \<not> keyword_match keywords issue
      then search_loop env keywords max_results rest issues_list (Suc pulled)
      else search_loop env keywords max_results rest
             (issues_list @ [row_of env issue]) (Suc pulled))"

definition search_issues ::
  "github_env \<Rightarrow> string \<Rightarrow> string \<Rightarrow> string \<Rightarrow> string \<Rightarrow> int \<Rightarrow> search_result"
where
  "search_issues env repo_name keywords labels state max_results =
     (case get_issues env repo_name state (label_list labels) of
        Inl e \<Rightarrow> SearchFailure (str_exn e)
      | Inr listing \<Rightarrow>
          (case search_loop env keywords max_results listing [] 0 of
             Inl e \<Rightarrow> SearchFailure (str_exn e)
           | Inr (issues_list, pulled) \<Rightarrow> SearchSuccess issues_list))"


section \<open>Concrete inputs\<close>

text \<open>
  A repository checkout is a list of files. \<open>build_env files\<close> is a machine on which
  every library call succeeds: the clone yields \<open>files\<close>, the splitter returns each
  document as one chunk, and the vector store adds what it is given and refuses an
  empty list.
\<close>

definition old_file :: repo_file where
  "old_file = \<lparr>file_path = ''a.py'', file_text = ''print(1)''\<rparr>"

definition new_file :: repo_file where
  "new_file = \<lparr>file_path = ''b.py'', file_text = ''print(2)''\<rparr>"

definition readme_file :: repo_file where
  "readme_file = \<lparr>file_path = ''README.md'', file_text = ''hello''\<rparr>"

definition build_env :: "repo_file list \<Rightarrow> repo_env" where
  "build_env files =
     \<lparr>mkdtemp = (\<lambda>paths. Inr ''/tmp/tmpab12''),
      git_clone = (\<lambda>url branch. Inr files),
      split_documents = (\<lambda>language chunk_size chunk_overlap docs. Inr docs),
      load_embeddings = Inr (),
      makedirs = (\<lambda>path. Inr ()),
      from_documents = chroma_from_documents (Raised ''Expected a non-empty list''),
      VECTOR_STORE_PATH = ''/data/vector_stores''\<rparr>"

definition world0 :: world where
  "world0 = \<lparr>fs = {}, collections = (\<lambda>path. [])\<rparr>"

definition history0 :: "chat_turn list" where
  "history0 =
     [[''role'' \<mapsto> ''user'', ''content'' \<mapsto> ''hi''],
      [''role'' \<mapsto> ''system'', ''content'' \<mapsto> ''be brief''],
      [''role'' \<mapsto> ''assistant'', ''content'' \<mapsto> ''hello'']]"

text \<open>
  Four documents that the retriever returns, the first longer than 500 characters and
  the third without a \<open>source\<close> in its metadata, and a chat machine on which the model,
  the store and the search for a question string succeed.
\<close>

definition long_doc :: document where
  "long_doc =
     \<lparr>page_content = replicate 600 (CHR ''x''),
      metadata = [''source'' \<mapsto> ''src/app.py'']\<rparr>"

definition plain_doc :: "string \<Rightarrow> string \<Rightarrow> document" where
  "plain_doc text path = \<lparr>page_content = text, metadata = [''source'' \<mapsto> path]\<rparr>"

definition unsourced_doc :: document where
  "unsourced_doc = \<lparr>page_content = ''notes'', metadata = Map.empty\<rparr>"

definition chat_env0 :: chat_env where
  "chat_env0 =
     \<lparr>make_llm = Inr (),
      open_vector_store = (\<lambda>path. Inr ()),
      retrieve = (\<lambda>path k question.
         Inr [long_doc, plain_doc ''def f(): pass'' ''src/f.py'', unsourced_doc,
              plain_doc ''x = 1'' ''src/x.py'']),
      not_a_string = Raised (CHR 0x27 # ''dict'' @ CHR 0x27 # '' object has no attribute '' @
                               CHR 0x27 # ''replace'' @ [CHR 0x27]),
      llm_answer = (\<lambda>context_block history question. Inr ''f does nothing.'')\<rparr>"

text \<open>
  An issue with six comments, listed oldest first, and a body of 1200 characters; a
  tracker that knows this issue as number 42 of \<open>o/r\<close> and lists the given issues; a
  model call that fails and one that answers.
\<close>

definition comment_at :: "nat \<Rightarrow> string \<Rightarrow> issue_comment" where
  "comment_at t text = \<lparr>comment_user = ''bob'', comment_body = text, comment_created_at = t\<rparr>"

definition listing6 :: "issue_comment list" where
  "listing6 = [comment_at 1 ''first'', comment_at 2 ''second'', comment_at 3 ''third'',
               comment_at 4 ''fourth'', comment_at 5 ''fifth'', comment_at 6 ''sixth'']"

definition issue42 :: gh_issue where
  "issue42 =
     \<lparr>gh_title = ''Crash on start'', gh_number = 42, gh_state = ''open'',
      gh_body = Some (replicate 1200 (CHR ''x'')), gh_labels = [''bug'', ''ui''], gh_comments = 6,
      gh_html_url = ''https://github.com/o/r/issues/42'', gh_user = ''alice'',
      gh_created_at = 0, gh_updated_at = 6, gh_get_comments = Inr listing6\<rparr>"

definition github_env0 ::
  "(string \<Rightarrow> py_exn + string) \<Rightarrow> (py_exn + gh_issue) list \<Rightarrow> github_env"
where
  "github_env0 llm listing =
     \<lparr>get_issue = (\<lambda>repo n. if repo = ''o/r'' \<and> n = 42 then Inr issue42
                             else Inl (Raised ''404 Not Found'')),
      init_llm = Inr (),
      llm_invoke = llm,
      get_issues = (\<lambda>repo state labels. Inr listing),
      str_datetime = str_nat\<rparr>"

definition llm_down :: "string \<Rightarrow> py_exn + string" where
  "llm_down prompt = Inl (Raised ''429 quota exceeded'')"

definition llm_up :: "string \<Rightarrow> py_exn + string" where
  "llm_up prompt = Inr ''Summary: crash. Priority: High''"




section \<open>Properties of RepositoryService\<close>

subsection \<open>Evaluation on the concrete inputs\<close>

lemma str_int_7: "str_int 7 = ''7''"
  by code_simp

lemmas build_eval =
  load_and_index_repository_def index_body_def persist_def build_env_def world0_def
  loader_load_def file_filter_def os_path_join_def endswith_def to_document_def
  old_file_def new_file_def readme_file_def str_int_7 language_map_def
  chroma_from_documents_def rmtree_def under_def get_vector_store_def Let_def

lemma first_build:
  "fst (load_and_index_repository (build_env [old_file]) world0
          ''https://example.org/r.git'' ''main'' [''.py''] 7) =
     IndexSuccess 1 1 ''/data/vector_stores/repo_7''"
  by (simp add: build_eval)

subsection \<open>No matching files\<close>

text \<open>
  C1. When \<open>mkdtemp\<close> and the clone succeed and no file of the checkout passes the
  extension filter, \<open>load_and_index_repository\<close> returns the failure result
  "No files found matching the selected extensions", and no collection of the vector
  store has changed: the outcome is never a success with an empty index.
\<close>

theorem no_matching_files_is_failure:
  assumes "mkdtemp env (fs w) = Inr temp_dir"
    and "git_clone env repo_url branch = Inr files"
    and "\<forall>f \<in> set files. \<not> file_filter file_extensions (os_path_join temp_dir (file_path f))"
  shows "fst (load_and_index_repository env w repo_url branch file_extensions repo_id) =
           IndexFailure ''No files found matching the selected extensions'' \<and>
         collections (snd (load_and_index_repository env w repo_url branch file_extensions repo_id)) =
           collections w"
proof -
  from assms(3) have "loader_load temp_dir file_extensions files = []"
    by (simp add: loader_load_def filter_empty_conv)
  with assms(1,2) show ?thesis
    by (simp add: load_and_index_repository_def index_body_def)
qed

theorem no_matching_files_is_failure_witness:
  "fst (load_and_index_repository (build_env [readme_file]) world0 ''https://example.org/r.git''
          ''main'' [''.py''] 7) =
     IndexFailure ''No files found matching the selected extensions''"
proof -
  have f: "\<forall>f \<in> set [readme_file].
             \<not> file_filter [''.py''] (os_path_join ''/tmp/tmpab12'' (file_path f))"
    by (simp add: readme_file_def file_filter_def os_path_join_def endswith_def)
  have m: "mkdtemp (build_env [readme_file]) (fs world0) = Inr ''/tmp/tmpab12''"
    by (simp add: build_env_def)
  have c: "git_clone (build_env [readme_file]) ''https://example.org/r.git'' ''main'' =
             Inr [readme_file]"
    by (simp add: build_env_def)
  show ?thesis
    using no_matching_files_is_failure [OF m c f] by simp
qed

subsection \<open>The splitter language\<close>

text \<open>
  C4, as amended. The splitter language is the one mapped to the first extension of the
  caller's list that \<open>language_map\<close> knows, in the caller's order; when no requested
  extension is mapped, the language is \<open>Language.PYTHON\<close>.
\<close>

theorem select_language_first_mapped:
  "(exts = pre @ ext # post \<and> (\<forall>e \<in> set pre. language_map e = None) \<and> language_map ext = Some l
      \<longrightarrow> select_language exts = l) \<and>
   ((\<forall>e \<in> set exts. language_map e = None) \<longrightarrow> select_language exts = PYTHON)"
proof (intro conjI impI)
  assume "exts = pre @ ext # post \<and> (\<forall>e \<in> set pre. language_map e = None) \<and>
          language_map ext = Some l"
  then have e: "exts = pre @ ext # post" and p: "\<forall>e \<in> set pre. language_map e = None"
    and m: "language_map ext = Some l" by simp_all
  from p m have "select_language (pre @ ext # post) = l"
    by (induction pre) simp_all
  with e show "select_language exts = l" by simp
next
  assume "\<forall>e \<in> set exts. language_map e = None"
  then show "select_language exts = PYTHON"
    by (induction exts) simp_all
qed

theorem select_language_first_mapped_witness:
  "language_map ''.md'' = None \<and> language_map ''.ts'' = Some TS \<and>
   select_language [''.md'', ''.ts'', ''.py''] = TS \<and>
   select_language [''.md''] = PYTHON"
  using select_language_first_mapped
          [of "[''.md'', ''.ts'', ''.py'']" "[''.md'']" "''.ts''" "[''.py'']" TS]
        select_language_first_mapped [of "[''.md'']" "[]" "''x''" "[]" PYTHON]
  by (simp add: language_map_def)

text \<open>
  The claim as written fails: \<open>.txt\<close> has no mapping, and the language chosen for it is
  the Python splitter, the same as for \<open>.py\<close>, not a generic one.
\<close>

theorem select_language_default_counterexample:
  "language_map ''.txt'' = None \<and> select_language [''.txt''] = PYTHON \<and>
   select_language [''.txt''] = select_language [''.py'']"
  by (simp add: language_map_def)

subsection \<open>The temporary workspace\<close>

lemma persist_fs:
  "p \<in> fs w \<Longrightarrow> p \<in> fs (snd (persist env w documents splits repo_id))"
  by (simp add: persist_def Let_def split: sum.splits)

lemma index_body_fs:
  "p \<in> fs w \<Longrightarrow> p \<in> fs (snd (index_body env w temp_dir repo_url branch exts repo_id))"
  by (simp add: index_body_def Let_def persist_fs split: sum.splits)

lemma cleanup_removes:
  "temp_dir \<noteq> [] \<Longrightarrow> temp_dir \<in> fs w \<Longrightarrow>
     \<forall>p \<in> fs (cleanup (Some temp_dir) w). \<not> under temp_dir p"
  by (simp add: rmtree_def)

text \<open>
  C9. Whenever \<open>mkdtemp\<close> has created the workspace (it returns the path of the new
  directory, which is not the empty string), then after \<open>load_and_index_repository\<close>
  has returned neither the workspace nor any path under it exists, whatever the
  outcome of the clone, the filter, the splitter, the embedding model and the vector
  store was.
\<close>

theorem workspace_removed_on_every_path:
  assumes "mkdtemp env (fs w) = Inr temp_dir" and "temp_dir \<noteq> []"
  shows "\<forall>p \<in> fs (snd (load_and_index_repository env w repo_url branch file_extensions repo_id)).
           \<not> under temp_dir p"
proof -
  let ?w1 = "w\<lparr>fs := insert temp_dir (fs w)\<rparr>"
  let ?b = "index_body env ?w1 temp_dir repo_url branch file_extensions repo_id"
  have "temp_dir \<in> fs ?w1" by simp
  then have "temp_dir \<in> fs (snd ?b)" by (rule index_body_fs)
  with assms(2) have "\<forall>p \<in> fs (cleanup (Some temp_dir) (snd ?b)). \<not> under temp_dir p"
    by (rule cleanup_removes)
  moreover have "snd (load_and_index_repository env w repo_url branch file_extensions repo_id) =
      cleanup (Some temp_dir) (snd ?b)"
    using assms(1) by (simp add: load_and_index_repository_def split: prod.splits)
  ultimately show ?thesis by simp
qed

theorem workspace_removed_on_every_path_witness:
  "fst (load_and_index_repository (build_env [old_file, readme_file]) world0
          ''https://example.org/r.git'' ''main'' [''.py''] 7) =
     IndexSuccess 1 1 ''/data/vector_stores/repo_7'' \<and>
   ''/tmp/tmpab12'' \<notin> fs (snd (load_and_index_repository (build_env [old_file, readme_file]) world0
          ''https://example.org/r.git'' ''main'' [''.py''] 7)) \<and>
   ''/tmp/tmpab12/a.py'' \<notin> fs (snd (load_and_index_repository (build_env [old_file, readme_file]) world0
          ''https://example.org/r.git'' ''main'' [''.py''] 7))"
proof -
  have m: "mkdtemp (build_env [old_file, readme_file]) (fs world0) = Inr ''/tmp/tmpab12''"
    by (simp add: build_env_def)
  have n: "''/tmp/tmpab12'' \<noteq> []" by simp
  have u: "under ''/tmp/tmpab12'' ''/tmp/tmpab12''"
    "under ''/tmp/tmpab12'' ''/tmp/tmpab12/a.py''"
    by (simp_all add: under_def)
  have r: "fst (load_and_index_repository (build_env [old_file, readme_file]) world0
          ''https://example.org/r.git'' ''main'' [''.py''] 7) =
     IndexSuccess 1 1 ''/data/vector_stores/repo_7''"
    by (simp add: build_eval)
  show ?thesis
    using workspace_removed_on_every_path
            [OF m n, of "''https://example.org/r.git''" "''main''" "[''.py'']" 7] u r
    by blast
qed



subsection \<open>Rebuilding an index\<close>

lemma persist_success:
  assumes "persist env w documents splits repo_id = (IndexSuccess n m path, w')"
  shows "path = os_path_join (VECTOR_STORE_PATH env) (''repo_'' @ str_int repo_id) \<and>
         n = length documents \<and> m = length splits \<and>
         from_documents env (collections w path) splits = Inr (collections w' path)"
  using assms by (auto simp: persist_def Let_def split: sum.splits)

lemma index_body_success:
  assumes "index_body env w temp_dir repo_url branch exts repo_id = (IndexSuccess n m path, w')"
  shows "\<exists>files splits.
           git_clone env repo_url branch = Inr files \<and>
           split_documents env (select_language exts) 1000 200 (loader_load temp_dir exts files) =
             Inr splits \<and>
           n = length (loader_load temp_dir exts files) \<and> m = length splits \<and>
           path = os_path_join (VECTOR_STORE_PATH env) (''repo_'' @ str_int repo_id) \<and>
           from_documents env (collections w path) splits = Inr (collections w' path)"
proof -
  from assms obtain files where c: "git_clone env repo_url branch = Inr files"
    by (auto simp: index_body_def split: sum.splits)
  let ?docs = "loader_load temp_dir exts files"
  let ?w1 = "w\<lparr>fs := fs w \<union> (\<lambda>f. os_path_join temp_dir (file_path f)) ` set files\<rparr>"
  from assms c obtain splits where
    s: "split_documents env (select_language exts) 1000 200 ?docs = Inr splits" and
    p: "persist env ?w1 ?docs splits repo_id = (IndexSuccess n m path, w')"
    by (auto simp: index_body_def Let_def split: sum.splits if_splits)
  from persist_success [OF p] have
    "path = os_path_join (VECTOR_STORE_PATH env) (''repo_'' @ str_int repo_id)"
    "n = length ?docs" "m = length splits"
    "from_documents env (collections ?w1 path) splits = Inr (collections w' path)"
    by blast+
  moreover have "collections ?w1 path = collections w path" by simp
  ultimately show ?thesis using c s by auto
qed

lemma cleanup_collections: "collections (cleanup t w) = collections w"
  by (cases t) simp_all

text \<open>
  A successful build has cloned, split what the loader kept, and handed the chunks to
  \<open>from_documents\<close> together with the entries already stored under the path made of
  \<open>VECTOR_STORE_PATH\<close> and the repository id; what the collection holds afterwards is
  what \<open>from_documents\<close> returned. The function itself removes nothing from the persist
  directory.
\<close>

lemma build_success:
  assumes "load_and_index_repository env w repo_url branch exts repo_id =
             (IndexSuccess n m path, w')"
  shows "\<exists>temp_dir files splits.
           mkdtemp env (fs w) = Inr temp_dir \<and>
           git_clone env repo_url branch = Inr files \<and>
           split_documents env (select_language exts) 1000 200 (loader_load temp_dir exts files) =
             Inr splits \<and>
           n = length (loader_load temp_dir exts files) \<and> m = length splits \<and>
           path = os_path_join (VECTOR_STORE_PATH env) (''repo_'' @ str_int repo_id) \<and>
           from_documents env (collections w path) splits = Inr (collections w' path)"
proof -
  from assms obtain temp_dir wb where
    t: "mkdtemp env (fs w) = Inr temp_dir" and
    b: "index_body env (w\<lparr>fs := insert temp_dir (fs w)\<rparr>) temp_dir repo_url branch exts repo_id =
          (IndexSuccess n m path, wb)" and
    w': "w' = cleanup (Some temp_dir) wb"
    by (auto simp: load_and_index_repository_def split: sum.splits prod.splits)
  from index_body_success [OF b] obtain files splits where
    "git_clone env repo_url branch = Inr files"
    "split_documents env (select_language exts) 1000 200 (loader_load temp_dir exts files) =
       Inr splits"
    "n = length (loader_load temp_dir exts files)" "m = length splits"
    "path = os_path_join (VECTOR_STORE_PATH env) (''repo_'' @ str_int repo_id)"
    "from_documents env (collections w path) splits = Inr (collections wb path)"
    by auto
  moreover have "collections w' path = collections wb path"
    using w' by (simp add: cleanup_collections del: cleanup.simps)
  ultimately show ?thesis using t by auto
qed

lemma chroma_adds:
  "chroma_from_documents err stored docs = Inr stored' \<Longrightarrow> docs \<noteq> [] \<and> stored' = stored @ docs"
  by (simp add: chroma_from_documents_def split: if_splits)

text \<open>
  C2, as amended. Two successful builds on the same repository id, under the same
  \<open>VECTOR_STORE_PATH\<close> and with a vector store whose \<open>from_documents\<close> adds to the
  collection it finds in the persist directory, store under the same path. Each build
  hands the chunks of its own clone to the store, and the collection after the second
  build is what was there before the first, followed by the chunks of the first build,
  followed by the chunks of the second: every entry of the first build can still be
  retrieved, next to the new ones.
\<close>

theorem rebuild_keeps_old_entries:
  assumes "load_and_index_repository env1 w0 repo_url1 branch1 exts1 repo_id =
             (IndexSuccess n1 m1 path1, w1)"
    and "load_and_index_repository env2 w1 repo_url2 branch2 exts2 repo_id =
             (IndexSuccess n2 m2 path2, w2)"
    and "VECTOR_STORE_PATH env2 = VECTOR_STORE_PATH env1"
    and "from_documents env1 = chroma_from_documents err1"
    and "from_documents env2 = chroma_from_documents err2"
  shows "path2 = path1 \<and>
         (\<exists>temp_dir1 files1 splits1 temp_dir2 files2 splits2.
            mkdtemp env1 (fs w0) = Inr temp_dir1 \<and>
            git_clone env1 repo_url1 branch1 = Inr files1 \<and>
            split_documents env1 (select_language exts1) 1000 200
              (loader_load temp_dir1 exts1 files1) = Inr splits1 \<and>
            mkdtemp env2 (fs w1) = Inr temp_dir2 \<and>
            git_clone env2 repo_url2 branch2 = Inr files2 \<and>
            split_documents env2 (select_language exts2) 1000 200
              (loader_load temp_dir2 exts2 files2) = Inr splits2 \<and>
            splits1 \<noteq> [] \<and> splits2 \<noteq> [] \<and>
            get_vector_store w1 path1 = get_vector_store w0 path1 @ splits1 \<and>
            get_vector_store w2 path1 = get_vector_store w0 path1 @ splits1 @ splits2)"
proof -
  from build_success [OF assms(1)] obtain temp_dir1 files1 splits1 where
    a1: "mkdtemp env1 (fs w0) = Inr temp_dir1"
        "git_clone env1 repo_url1 branch1 = Inr files1"
        "split_documents env1 (select_language exts1) 1000 200
           (loader_load temp_dir1 exts1 files1) = Inr splits1" and
    p1: "path1 = os_path_join (VECTOR_STORE_PATH env1) (''repo_'' @ str_int repo_id)" and
    f1: "from_documents env1 (collections w0 path1) splits1 = Inr (collections w1 path1)"
    by blast
  from build_success [OF assms(2)] obtain temp_dir2 files2 splits2 where
    a2: "mkdtemp env2 (fs w1) = Inr temp_dir2"
        "git_clone env2 repo_url2 branch2 = Inr files2"
        "split_documents env2 (select_language exts2) 1000 200
           (loader_load temp_dir2 exts2 files2) = Inr splits2" and
    p2: "path2 = os_path_join (VECTOR_STORE_PATH env2) (''repo_'' @ str_int repo_id)" and
    f2: "from_documents env2 (collections w1 path2) splits2 = Inr (collections w2 path2)"
    by blast
  from p1 p2 assms(3) have p: "path2 = path1" by simp
  from f1 assms(4) have c1: "splits1 \<noteq> [] \<and> collections w1 path1 = collections w0 path1 @ splits1"
    using chroma_adds by metis
  from f2 assms(5) p have c2: "splits2 \<noteq> [] \<and> collections w2 path1 = collections w1 path1 @ splits2"
    using chroma_adds by metis
  from c1 c2 have
    "splits1 \<noteq> [] \<and> splits2 \<noteq> [] \<and>
     get_vector_store w1 path1 = get_vector_store w0 path1 @ splits1 \<and>
     get_vector_store w2 path1 = get_vector_store w0 path1 @ splits1 @ splits2"
    by (simp add: get_vector_store_def)
  with p a1 a2 show ?thesis by blast
qed

theorem rebuild_keeps_old_entries_witness:
  "get_vector_store
     (snd (load_and_index_repository (build_env [new_file])
        (snd (load_and_index_repository (build_env [old_file]) world0
                ''https://example.org/r.git'' ''main'' [''.py''] 7))
        ''https://example.org/r.git'' ''main'' [''.py''] 7))
     ''/data/vector_stores/repo_7'' \<noteq> [] \<and>
   to_document old_file \<in> set (get_vector_store
     (snd (load_and_index_repository (build_env [new_file])
        (snd (load_and_index_repository (build_env [old_file]) world0
                ''https://example.org/r.git'' ''main'' [''.py''] 7))
        ''https://example.org/r.git'' ''main'' [''.py''] 7))
     ''/data/vector_stores/repo_7'')"
proof -
  let ?b1 = "load_and_index_repository (build_env [old_file]) world0
               ''https://example.org/r.git'' ''main'' [''.py''] 7"
  let ?b2 = "load_and_index_repository (build_env [new_file]) (snd ?b1)
               ''https://example.org/r.git'' ''main'' [''.py''] 7"
  have a: "?b1 = (IndexSuccess 1 1 ''/data/vector_stores/repo_7'', snd ?b1)"
    using first_build by (simp add: prod_eq_iff)
  have "fst ?b2 = IndexSuccess 1 1 ''/data/vector_stores/repo_7''"
    by (simp add: build_eval)
  then have b: "?b2 = (IndexSuccess 1 1 ''/data/vector_stores/repo_7'', snd ?b2)"
    by (simp add: prod_eq_iff)
  have v: "VECTOR_STORE_PATH (build_env [new_file]) = VECTOR_STORE_PATH (build_env [old_file])"
    by (simp add: build_env_def)
  have f1: "from_documents (build_env [old_file]) =
              chroma_from_documents (Raised ''Expected a non-empty list'')"
    by (simp add: build_env_def)
  have f2: "from_documents (build_env [new_file]) =
              chroma_from_documents (Raised ''Expected a non-empty list'')"
    by (simp add: build_env_def)
  have o: "get_vector_store (snd ?b1) ''/data/vector_stores/repo_7'' = [to_document old_file]"
    by (simp add: build_eval)
  from rebuild_keeps_old_entries [OF a b v f1 f2] obtain splits1 splits2 where
    g1: "get_vector_store (snd ?b1) ''/data/vector_stores/repo_7'' =
           get_vector_store world0 ''/data/vector_stores/repo_7'' @ splits1" and
    g2: "get_vector_store (snd ?b2) ''/data/vector_stores/repo_7'' =
           get_vector_store world0 ''/data/vector_stores/repo_7'' @ splits1 @ splits2"
    by blast
  from g1 g2 have "get_vector_store (snd ?b2) ''/data/vector_stores/repo_7'' =
      get_vector_store (snd ?b1) ''/data/vector_stores/repo_7'' @ splits2"
    by simp
  with o show ?thesis by simp
qed

text \<open>
  The claim as written fails: the repository holds \<open>a.py\<close> at the first build and \<open>b.py\<close>
  at the second, both builds succeed under repository id 7, and the collection opened
  at the path afterwards holds the entry of \<open>a.py\<close> next to the entry of \<open>b.py\<close>.
\<close>

theorem rebuild_replaces_counterexample:
  "fst (load_and_index_repository (build_env [old_file]) world0
          ''https://example.org/r.git'' ''main'' [''.py''] 7) =
     IndexSuccess 1 1 ''/data/vector_stores/repo_7'' \<and>
   fst (load_and_index_repository (build_env [new_file])
          (snd (load_and_index_repository (build_env [old_file]) world0
                  ''https://example.org/r.git'' ''main'' [''.py''] 7))
          ''https://example.org/r.git'' ''main'' [''.py''] 7) =
     IndexSuccess 1 1 ''/data/vector_stores/repo_7'' \<and>
   get_vector_store
     (snd (load_and_index_repository (build_env [new_file])
          (snd (load_and_index_repository (build_env [old_file]) world0
                  ''https://example.org/r.git'' ''main'' [''.py''] 7))
          ''https://example.org/r.git'' ''main'' [''.py''] 7))
     ''/data/vector_stores/repo_7'' =
     [to_document old_file, to_document new_file]"
  by (simp add: build_eval)


section \<open>Properties of ChatService\<close>

lemma format_history_acc:
  assumes "\<forall>msg \<in> set h. msg ''role'' \<noteq> None \<and> msg ''content'' \<noteq> None"
  shows "format_history h acc =
           Inr (acc @ map (\<lambda>msg. if msg ''role'' = Some ''user''
                                 then HumanMessage (the (msg ''content''))
                                 else AIMessage (the (msg ''content''))) h)"
  using assms
proof (induction h arbitrary: acc)
  case Nil
  then show ?case by simp
next
  case (Cons msg rest)
  then obtain r c where r: "msg ''role'' = Some r" and c: "msg ''content'' = Some c"
    by auto
  from Cons.prems have rest: "\<forall>m \<in> set rest. m ''role'' \<noteq> None \<and> m ''content'' \<noteq> None"
    by simp
  show ?case
    by (simp add: getitem_def r c Cons.IH [OF rest])
qed

text \<open>
  C10. For a chat history whose turns all have a role and a content, the conversion
  succeeds with one message per turn, in the order of the turns: the message of a turn
  is a human message when its role is exactly \<open>user\<close>, and an assistant message for every
  other role.
\<close>

theorem format_history_roles:
  assumes "\<forall>msg \<in> set chat_history. msg ''role'' \<noteq> None \<and> msg ''content'' \<noteq> None"
  shows "\<exists>formatted. format_history chat_history [] = Inr formatted \<and>
           length formatted = length chat_history \<and>
           (\<forall>i < length chat_history. \<forall>c. (chat_history ! i) ''content'' = Some c \<longrightarrow>
              formatted ! i = (if (chat_history ! i) ''role'' = Some ''user''
                               then HumanMessage c else AIMessage c))"
  using format_history_acc [OF assms, of "[]"] by simp

theorem format_history_roles_witness:
  "format_history history0 [] =
     Inr [HumanMessage ''hi'', AIMessage ''be brief'', AIMessage ''hello'']"
proof -
  have h: "\<forall>msg \<in> set history0. msg ''role'' \<noteq> None \<and> msg ''content'' \<noteq> None"
    by (simp add: history0_def)
  show ?thesis
    using format_history_roles [OF h] by (simp add: history0_def getitem_def)
qed

subsection \<open>The context returned with an answer\<close>

text \<open>
  The chain hands the retriever the input dictionary, the embedding of the query raises,
  and so does the chain.
\<close>

lemma retrieval_chain_raises:
  "retrieval_chain_invoke env path question formatted_history = Inl (not_a_string env)"
  by (simp add: retrieval_chain_invoke_def retriever_invoke_def)

text \<open>
  What lines 149 to 155 build from the retrieved documents: at most three entries, each
  with at most 500 characters of content.
\<close>

lemma context_docs_bounds:
  "length (map context_entry (take 3 docs)) \<le> 3 \<and>
   (\<forall>c \<in> set (map context_entry (take 3 docs)). length (content c) \<le> 500)"
  by (auto simp: context_entry_def)

text \<open>
  C7. The claim bounds the context list that comes with an answer: at most three entries
  of at most 500 characters, each with its source. Lines 149 to 155 build such a list,
  but no call reaches them: for every input \<open>get_response\<close> returns the failure
  result, because the chain of line 137 invokes the retriever with the input dictionary.
  For the question "What does f do?" the result is the failure carrying the text of the
  embedding's exception, while the retriever asked with the question string, as on line
  150, returns its documents.
\<close>

theorem get_response_never_answers:
  "(\<forall>env question vector_store_path chat_history.
      \<exists>msg. get_response env question vector_store_path chat_history = ChatFailure msg) \<and>
   get_response chat_env0 ''What does f do?'' ''/data/vector_stores/repo_7'' history0 =
     ChatFailure (CHR 0x27 # ''dict'' @ CHR 0x27 # '' object has no attribute '' @
                  CHR 0x27 # ''replace'' @ [CHR 0x27]) \<and>
   retriever_invoke chat_env0 ''/data/vector_stores/repo_7'' 3 (QueryString ''What does f do?'') =
     Inr [long_doc, plain_doc ''def f(): pass'' ''src/f.py'', unsourced_doc,
          plain_doc ''x = 1'' ''src/x.py'']"
proof (intro conjI allI)
  fix env question vector_store_path chat_history
  show "\<exists>msg. get_response env question vector_store_path chat_history = ChatFailure msg"
    by (simp add: get_response_def retrieval_chain_raises split: sum.splits)
next
  show "get_response chat_env0 ''What does f do?'' ''/data/vector_stores/repo_7'' history0 =
     ChatFailure (CHR 0x27 # ''dict'' @ CHR 0x27 # '' object has no attribute '' @
                  CHR 0x27 # ''replace'' @ [CHR 0x27])"
    by (simp add: get_response_def retrieval_chain_raises chat_env0_def history0_def getitem_def)
next
  show "retriever_invoke chat_env0 ''/data/vector_stores/repo_7'' 3
          (QueryString ''What does f do?'') =
     Inr [long_doc, plain_doc ''def f(): pass'' ''src/f.py'', unsourced_doc,
          plain_doc ''x = 1'' ''src/x.py'']"
    by (simp add: chat_env0_def retriever_invoke_def)
qed


section \<open>Properties of GitHubService\<close>

subsection \<open>Failure of the model call during the analysis of an issue\<close>

text \<open>
  C3, as amended. When the issue has been fetched, its comment listing has been fetched
  and is not empty, and the model call raises, \<open>analyze_issue\<close> returns the failure
  result that carries the text of the exception and nothing else: the fetched issue
  metadata is not returned.
\<close>

theorem analyze_issue_llm_failure_is_total:
  assumes "get_issue env repo_name issue_number = Inr issue"
    and "gh_get_comments issue = Inr listing"
    and "listing \<noteq> []"
    and "init_llm env = Inr ()"
    and "llm_invoke env (analysis_prompt
           ((fetch_issue_data issue)\<lparr>d_comments := map (comment_entry env) (take 5 listing)\<rparr>)) = Inl e"
  shows "analyze_issue env repo_name issue_number = AnalyzeFailure (str_exn e)"
  using assms by (simp add: analyze_issue_def paginated_slice_def Let_def)

theorem analyze_issue_llm_failure_is_total_witness:
  "analyze_issue (github_env0 llm_down []) ''o/r'' 42 = AnalyzeFailure ''429 quota exceeded''"
proof -
  have g: "get_issue (github_env0 llm_down []) ''o/r'' 42 = Inr issue42"
    by (simp add: github_env0_def)
  have c: "gh_get_comments issue42 = Inr listing6" by (simp add: issue42_def)
  have n: "listing6 \<noteq> []" by (simp add: listing6_def)
  have i: "init_llm (github_env0 llm_down []) = Inr ()" by (simp add: github_env0_def)
  have l: "llm_invoke (github_env0 llm_down []) (analysis_prompt
           ((fetch_issue_data issue42)\<lparr>d_comments :=
              map (comment_entry (github_env0 llm_down [])) (take 5 listing6)\<rparr>)) =
           Inl (Raised ''429 quota exceeded'')"
    by (simp add: github_env0_def llm_down_def)
  show ?thesis
    using analyze_issue_llm_failure_is_total [OF g c n i l] by simp
qed

text \<open>
  The claim as written fails: issue 42 of \<open>o/r\<close> exists and is fetched, the model call
  raises, and the result is a failure without any issue data.
\<close>

theorem analyze_issue_partial_success_counterexample:
  "get_issue (github_env0 llm_down []) ''o/r'' 42 = Inr issue42 \<and>
   llm_invoke (github_env0 llm_down []) = llm_down \<and>
   (case analyze_issue (github_env0 llm_down []) ''o/r'' 42 of
      AnalyzeSuccess d \<Rightarrow> False
    | AnalyzeFailure msg \<Rightarrow> msg = ''429 quota exceeded'')"
  by (simp add: analyze_issue_def github_env0_def issue42_def llm_down_def Let_def
      paginated_slice_def listing6_def)

text \<open>
  An issue without comments never reaches the model call: slicing its empty listing
  raises, and the result is that failure.
\<close>

lemma analyze_issue_without_comments:
  assumes "get_issue env repo_name issue_number = Inr issue"
    and "gh_get_comments issue = Inr []"
  shows "analyze_issue env repo_name issue_number = AnalyzeFailure ''list index out of range''"
  using assms by (simp add: analyze_issue_def paginated_slice_def)

subsection \<open>Comments and body in the analysis of an issue\<close>

lemma analysis_prompt_ai: "analysis_prompt (d\<lparr>d_ai_analysis := a\<rparr>) = analysis_prompt d"
  by (simp add: analysis_prompt_def)

text \<open>
  C6, as amended. Whenever \<open>analyze_issue\<close> succeeds, the comments of the returned data
  are at most five: the first five of the listing that \<open>issue.get_comments()\<close> gives, in
  the order of that listing. Title, body, labels and state of the data are those of the
  fetched issue (the body replaced by "No description provided" when it is missing or
  empty), and the prompt sent to the model holds, after "Issue Body: ", the first 1000
  characters of that body and no more of it.
\<close>

theorem analyze_issue_comments_and_prompt:
  assumes "analyze_issue env repo_name issue_number = AnalyzeSuccess d"
  shows "\<exists>issue listing analysis.
           get_issue env repo_name issue_number = Inr issue \<and>
           gh_get_comments issue = Inr listing \<and>
           d_comments d = map (comment_entry env) (take 5 listing) \<and>
           length (d_comments d) \<le> 5 \<and>
           d_title d = gh_title issue \<and>
           d_body d = body_or_default (gh_body issue) \<and>
           (\<forall>b. gh_body issue = Some b \<and> b \<noteq> [] \<longrightarrow> d_body d = b) \<and>
           d_labels d = gh_labels issue \<and>
           d_state d = gh_state issue \<and>
           llm_invoke env
             (''Analyze this GitHub issue and provide:'' @ nl @
              ''1. A brief summary of the problem'' @ nl @
              ''2. Possible root causes'' @ nl @
              ''3. Suggested solutions or next steps'' @ nl @
              ''4. Priority level (High/Medium/Low)'' @ nl @ nl @
              ''Issue Title: '' @ gh_title issue @ nl @
              ''Issue Body: '' @ take 1000 (body_or_default (gh_body issue)) @ nl @
              ''Labels: '' @
                (if gh_labels issue \<noteq> [] then join '', '' (gh_labels issue) else ''None'') @ nl @
              ''State: '' @ gh_state issue) = Inr analysis \<and>
           d_ai_analysis d = Some analysis"
proof -
  from assms obtain issue listing analysis where
    g: "get_issue env repo_name issue_number = Inr issue" and
    c: "gh_get_comments issue = Inr listing" and
    l: "llm_invoke env (analysis_prompt
           ((fetch_issue_data issue)\<lparr>d_comments := map (comment_entry env) (take 5 listing)\<rparr>)) =
         Inr analysis" and
    d: "d = (fetch_issue_data issue)\<lparr>d_comments := map (comment_entry env) (take 5 listing),
                                     d_ai_analysis := Some analysis\<rparr>"
    by (auto simp: analyze_issue_def paginated_slice_def Let_def split: sum.splits if_splits)
  have 1: "d_comments d = map (comment_entry env) (take 5 listing)" using d by simp
  then have 2: "length (d_comments d) \<le> 5" by simp
  have 3: "d_title d = gh_title issue" "d_body d = body_or_default (gh_body issue)"
    "d_labels d = gh_labels issue" "d_state d = gh_state issue"
    using d by (simp_all add: fetch_issue_data_def)
  have 4: "\<forall>b. gh_body issue = Some b \<and> b \<noteq> [] \<longrightarrow> d_body d = b"
    using 3(2) by (simp add: body_or_default_def)
  have pe: "analysis_prompt
           ((fetch_issue_data issue)\<lparr>d_comments := map (comment_entry env) (take 5 listing)\<rparr>) =
             ''Analyze this GitHub issue and provide:'' @ nl @
              ''1. A brief summary of the problem'' @ nl @
              ''2. Possible root causes'' @ nl @
              ''3. Suggested solutions or next steps'' @ nl @
              ''4. Priority level (High/Medium/Low)'' @ nl @ nl @
              ''Issue Title: '' @ gh_title issue @ nl @
              ''Issue Body: '' @ take 1000 (body_or_default (gh_body issue)) @ nl @
              ''Labels: '' @
                (if gh_labels issue \<noteq> [] then join '', '' (gh_labels issue) else ''None'') @ nl @
              ''State: '' @ gh_state issue"
    by (simp add: analysis_prompt_def fetch_issue_data_def)
  have 5: "llm_invoke env
             (''Analyze this GitHub issue and provide:'' @ nl @
              ''1. A brief summary of the problem'' @ nl @
              ''2. Possible root causes'' @ nl @
              ''3. Suggested solutions or next steps'' @ nl @
              ''4. Priority level (High/Medium/Low)'' @ nl @ nl @
              ''Issue Title: '' @ gh_title issue @ nl @
              ''Issue Body: '' @ take 1000 (body_or_default (gh_body issue)) @ nl @
              ''Labels: '' @
                (if gh_labels issue \<noteq> [] then join '', '' (gh_labels issue) else ''None'') @ nl @
              ''State: '' @ gh_state issue) = Inr analysis"
    using l [unfolded pe] .
  have 6: "d_ai_analysis d = Some analysis" using d by simp
  from g c 1 2 3 4 5 6 show ?thesis by blast
qed

lemma analyze42:
  "analyze_issue (github_env0 llm_up []) ''o/r'' 42 =
     AnalyzeSuccess
       ((fetch_issue_data issue42)
          \<lparr>d_comments := map (comment_entry (github_env0 llm_up [])) (take 5 listing6),
           d_ai_analysis := Some ''Summary: crash. Priority: High''\<rparr>)"
  by (simp add: analyze_issue_def github_env0_def issue42_def llm_up_def Let_def
      paginated_slice_def listing6_def)

theorem analyze_issue_comments_and_prompt_witness:
  "map body (d_comments (data (analyze_issue (github_env0 llm_up []) ''o/r'' 42))) =
     [''first'', ''second'', ''third'', ''fourth'', ''fifth''] \<and>
   d_body (data (analyze_issue (github_env0 llm_up []) ''o/r'' 42)) = replicate 1200 (CHR ''x'') \<and>
   d_ai_analysis (data (analyze_issue (github_env0 llm_up []) ''o/r'' 42)) =
     Some ''Summary: crash. Priority: High''"
  using analyze_issue_comments_and_prompt [OF analyze42]
  by (simp add: analyze42 listing6_def comment_entry_def comment_at_def fetch_issue_data_def
      issue42_def body_or_default_def)

text \<open>
  The claim as written fails: of six comments created at times 1 to 6 and listed in that
  order, the data holds the five oldest; the most recent comment is left out.
\<close>

theorem analyze_issue_recent_comments_counterexample:
  "gh_get_comments issue42 = Inr listing6 \<and>
   map comment_created_at listing6 = [1, 2, 3, 4, 5, 6] \<and>
   map comment_body listing6 = [''first'', ''second'', ''third'', ''fourth'', ''fifth'', ''sixth''] \<and>
   (case analyze_issue (github_env0 llm_up []) ''o/r'' 42 of
      AnalyzeSuccess d \<Rightarrow>
        map body (d_comments d) = [''first'', ''second'', ''third'', ''fourth'', ''fifth'']
    | AnalyzeFailure msg \<Rightarrow> False)"
  by (simp add: analyze42 listing6_def comment_entry_def comment_at_def issue42_def)

subsection \<open>The cap of the issue search\<close>

text \<open>The result never holds more issues than a cap that is not negative.\<close>

lemma search_loop_cap:
  "search_loop env kw m xs acc n = Inr (res, p) \<Longrightarrow> int (length acc) \<le> m \<Longrightarrow>
     int (length res) \<le> m"
proof (induction env kw m xs acc n rule: search_loop.induct)
  case (1 env kw m acc n)
  then show ?case by simp
next
  case (2 env kw m e rest acc n)
  then show ?case by simp
next
  case (3 env kw m issue rest acc n)
  show ?case
  proof (cases "int (length acc) \<ge> m")
    case True
    with "3.prems" show ?thesis by simp
  next
    case False
    then have lt: "int (length acc) < m" by simp
    show ?thesis
    proof (cases "keyword_match kw issue")
      case True
      with False "3.prems" have
        "search_loop env kw m rest (acc @ [row_of env issue]) (Suc n) = Inr (res, p)"
        by simp
      moreover from lt have "int (length (acc @ [row_of env issue])) \<le> m" by simp
      ultimately show ?thesis using "3.IH"(2) False True by blast
    next
      case nomatch: False
      with False "3.prems" have "search_loop env kw m rest acc (Suc n) = Inr (res, p)"
        by simp
      then show ?thesis using "3.IH"(1) False nomatch "3.prems"(2) by blast
    qed
  qed
qed

lemma search_issues_at_most_max_results:
  assumes "0 \<le> max_results"
    and "search_issues env repo_name keywords labels state max_results = SearchSuccess issues_list"
  shows "int (length issues_list) \<le> max_results"
proof -
  from assms(2) obtain listing pulled where
    l: "search_loop env keywords max_results listing [] 0 = Inr (issues_list, pulled)"
    by (auto simp: search_issues_def split: sum.splits)
  from assms(1) have z: "int (length ([]::issue_row list)) \<le> max_results" by simp
  show ?thesis using search_loop_cap [OF l z] .
qed

text \<open>
  With the cap already reached, the loop still takes the next element of the listing:
  an issue is dropped and the loop ends; an exception raised while fetching it ends the
  search.
\<close>

lemma search_loop_at_cap:
  assumes "max_results \<le> int (length issues_list)"
  shows "search_loop env keywords max_results (Inr issue # rest) issues_list pulled =
           Inr (issues_list, Suc pulled)"
    and "search_loop env keywords max_results (Inl e # rest) issues_list pulled = Inl e"
  using assms by simp_all



end
